theory Spec2Isabelle
  imports Complex_Main "HOL-Library.AList"
begin

section \<open>Platform\<close>

text \<open>
  The code reads three ambient sources: the wall clock (\<^verbatim>\<open>Date.now()\<close>), the
  identifier generator (\<^verbatim>\<open>crypto.randomUUID()\<close>) and \<^verbatim>\<open>Math.random()\<close>.
  Each is an oracle: the sequence of values it will hand out, with a counter of how many
  have been consumed. Nothing is assumed about the values; a theorem that needs the clock
  not to run backwards says so.
\<close>

record world =
  clock :: "nat \<Rightarrow> int"
  ticks :: nat
  uuids :: "nat \<Rightarrow> string"
  drawn :: nat
  randoms :: "nat \<Rightarrow> rat"
  rolled :: nat

definition Date_now :: "world \<Rightarrow> int \<times> world" where
  "Date_now w = (clock w (ticks w), w\<lparr>ticks := Suc (ticks w)\<rparr>)"

definition randomUUID :: "world \<Rightarrow> string \<times> world" where
  "randomUUID w = (uuids w (drawn w), w\<lparr>drawn := Suc (drawn w)\<rparr>)"

text \<open>\<^verbatim>\<open>Math.random()\<close> lies in \<open>[0, 1)\<close>: the oracle's value is reduced to its fractional part.\<close>

definition Math_random :: "world \<Rightarrow> rat \<times> world" where
  "Math_random w = (frac (randoms w (rolled w)), w\<lparr>rolled := Suc (rolled w)\<rparr>)"

text \<open>Thrown values: an \<^verbatim>\<open>Error\<close> object with its message, or anything else.\<close>

datatype thrown = Error string | NonError

datatype 'a outcome = Returned 'a | Raised thrown

text \<open>
  A JavaScript \<^verbatim>\<open>Map\<close> is an association list in insertion order: \<^verbatim>\<open>set\<close> is
  \<^const>\<open>AList.update\<close> (overwrite in place, or append), \<^verbatim>\<open>get\<close> is \<^const>\<open>map_of\<close>,
  \<^verbatim>\<open>delete\<close> is \<^const>\<open>AList.delete\<close>, \<^verbatim>\<open>clear\<close> gives \<open>[]\<close>, \<^verbatim>\<open>values()\<close> is
  \<open>map snd\<close> and \<^verbatim>\<open>size\<close> is \<^const>\<open>length\<close> (keys stay distinct under these operations).
\<close>

section \<open>Agents (agents/Agent.ts)\<close>

datatype role = User | Assistant | System

record AgentMessage =
  role :: role
  content :: string
  timestamp :: int

text \<open>
  \<^verbatim>\<open>execute\<close> is abstract. The four built-in subclasses are tags; any other subclass is
  \<open>CustomAgent f\<close>, where \<open>f\<close> maps the input and the current history to what the call
  does: it returns or throws, and leaves a history behind.
\<close>

type_synonym behaviour = "string \<Rightarrow> AgentMessage list \<Rightarrow> string outcome \<times> AgentMessage list"

datatype variant =
    ArchitectAgent
  | DevilsAdvocateAgent
  | HistorianAgent
  | ScribeAgent
  | CustomAgent behaviour

record AgentConfig =
  cfg_name :: string
  cfg_provider :: string
  cfg_model :: string
  cfg_systemPrompt :: string

record Agent =
  a_id :: string
  a_name :: string
  provider :: string
  model :: string
  systemPrompt :: string
  history :: "AgentMessage list"
  variant :: variant

definition Agent_new :: "variant \<Rightarrow> AgentConfig \<Rightarrow> world \<Rightarrow> Agent \<times> world" where
  "Agent_new v config w =
     (let (u, w') = randomUUID w
      in (\<lparr>a_id = u, a_name = cfg_name config, provider = cfg_provider config,
           model = cfg_model config, systemPrompt = cfg_systemPrompt config,
           history = [], variant = v\<rparr>, w'))"

definition addToHistory :: "AgentMessage \<Rightarrow> Agent \<Rightarrow> Agent" where
  "addToHistory message a = a\<lparr>history := history a @ [message]\<rparr>"

definition getHistory :: "Agent \<Rightarrow> AgentMessage list" where
  "getHistory a = history a"

definition clearHistory :: "Agent \<Rightarrow> Agent" where
  "clearHistory a = a\<lparr>history := []\<rparr>"

definition newline :: string where
  "newline = [CHR 0x0A]"

fun role_name :: "role \<Rightarrow> string" where
  "role_name User = ''user''"
| "role_name Assistant = ''assistant''"
| "role_name System = ''system''"

fun join :: "string \<Rightarrow> string list \<Rightarrow> string" where
  "join sep [] = []"
| "join sep [x] = x"
| "join sep (x # y # ys) = x @ sep @ join sep (y # ys)"

definition getContext :: "Agent \<Rightarrow> string" where
  "getContext a = join newline (map (\<lambda>m. role_name (role m) @ '': '' @ content m) (history a))"

definition ArchitectAgent_new :: "world \<Rightarrow> Agent \<times> world" where
  "ArchitectAgent_new =
     Agent_new ArchitectAgent
       \<lparr>cfg_name = ''The Architect'', cfg_provider = ''anthropic'',
        cfg_model = ''claude-3-5-sonnet'',
        cfg_systemPrompt =
          ''You are The Architect, a senior software architect.'' @ newline @
          ''Your role is to maintain the big picture of the codebase.'' @ newline @
          ''You prevent spaghetti code by suggesting proper structure.'' @ newline @
          ''You review code for architectural patterns and best practices.''\<rparr>"

definition DevilsAdvocateAgent_new :: "world \<Rightarrow> Agent \<times> world" where
  "DevilsAdvocateAgent_new =
     Agent_new DevilsAdvocateAgent
       \<lparr>cfg_name = ''The Devil'' @ [CHR 0x27] @ ''s Advocate'', cfg_provider = ''openai'',
        cfg_model = ''gpt-4o'',
        cfg_systemPrompt =
          ''You are The Devil'' @ [CHR 0x27] @ ''s Advocate, a chaos engineer.'' @ newline @
          ''Your role is to actively try to break code logic.'' @ newline @
          ''You look for edge cases, race conditions, and potential failures.'' @ newline @
          ''You challenge assumptions and find weaknesses.''\<rparr>"

definition HistorianAgent_new :: "world \<Rightarrow> Agent \<times> world" where
  "HistorianAgent_new =
     Agent_new HistorianAgent
       \<lparr>cfg_name = ''The Historian'', cfg_provider = ''google'',
        cfg_model = ''gemini-pro-1.5'',
        cfg_systemPrompt =
          ''You are The Historian, the keeper of context.'' @ newline @
          ''You remember every git commit and chat message.'' @ newline @
          ''You answer '' @ [CHR 0x22] @ ''Why did we do this?'' @ [CHR 0x22] @
          '' questions.'' @ newline @
          ''You provide historical context for decisions.''\<rparr>"

definition ScribeAgent_new :: "world \<Rightarrow> Agent \<times> world" where
  "ScribeAgent_new =
     Agent_new ScribeAgent
       \<lparr>cfg_name = ''The Scribe'', cfg_provider = ''mistral'',
        cfg_model = ''mistral-small'',
        cfg_systemPrompt =
          ''You are The Scribe, the documentation specialist.'' @ newline @
          ''You update README and comments in real-time.'' @ newline @
          ''You ensure code is well-documented and accessible.'' @ newline @
          ''You write clear, concise documentation.''\<rparr>"

text \<open>
  The four built-in \<^verbatim>\<open>execute\<close> bodies are the same three statements and differ in
  the bracketed label only; \<open>echo\<close> is that body with the label as a parameter.
\<close>

definition echo :: "string \<Rightarrow> string \<Rightarrow> Agent \<Rightarrow> world \<Rightarrow> string outcome \<times> Agent \<times> world" where
  "echo label inp a w =
     (let (t1, w1) = Date_now w;
          a1 = addToHistory \<lparr>role = User, content = inp, timestamp = t1\<rparr> a;
          response = label @ newline @ inp;
          (t2, w2) = Date_now w1;
          a2 = addToHistory \<lparr>role = Assistant, content = response, timestamp = t2\<rparr> a1
      in (Returned response, a2, w2))"

definition execute :: "string \<Rightarrow> Agent \<Rightarrow> world \<Rightarrow> string outcome \<times> Agent \<times> world" where
  "execute inp a w =
     (case variant a of
        ArchitectAgent \<Rightarrow> echo ''[Architect Analysis]'' inp a w
      | DevilsAdvocateAgent \<Rightarrow> echo ''[Chaos Analysis]'' inp a w
      | HistorianAgent \<Rightarrow> echo ''[Historical Context]'' inp a w
      | ScribeAgent \<Rightarrow> echo ''[Documentation]'' inp a w
      | CustomAgent f \<Rightarrow> (let (r, h) = f inp (history a) in (r, a\<lparr>history := h\<rparr>, w)))"

section \<open>Agent hub (core/AgentHub.ts)\<close>

datatype status = Pending | Running | Completed | Failed

record AgentTask =
  t_id :: string
  t_agentId :: string
  t_input :: string
  t_status :: status
  t_result :: "string option"
  t_error :: "string option"
  t_startTime :: "int option"
  t_endTime :: "int option"

text \<open>A \<^verbatim>\<open>KeyVault\<close> object is referred to by its address.\<close>

type_synonym vault_ref = nat

record AgentHub =
  agents :: "(string \<times> Agent) list"
  tasks :: "(string \<times> AgentTask) list"
  h_keyVault :: vault_ref

definition registerAgent :: "Agent \<Rightarrow> AgentHub \<Rightarrow> AgentHub" where
  "registerAgent agent h = h\<lparr>agents := AList.update (a_id agent) agent (agents h)\<rparr>"

definition unregisterAgent :: "string \<Rightarrow> AgentHub \<Rightarrow> AgentHub" where
  "unregisterAgent agentId h = h\<lparr>agents := AList.delete agentId (agents h)\<rparr>"

definition getAgent :: "string \<Rightarrow> AgentHub \<Rightarrow> Agent option" where
  "getAgent agentId h = map_of (agents h) agentId"

definition getAgentByName :: "string \<Rightarrow> AgentHub \<Rightarrow> Agent option" where
  "getAgentByName n h = find (\<lambda>a. a_name a = n) (map snd (agents h))"

definition listAgents :: "AgentHub \<Rightarrow> Agent list" where
  "listAgents h = map snd (agents h)"

definition initializeDefaultAgents :: "AgentHub \<Rightarrow> world \<Rightarrow> AgentHub \<times> world" where
  "initializeDefaultAgents h w =
     (let (a1, w1) = ArchitectAgent_new w;
          (a2, w2) = DevilsAdvocateAgent_new w1;
          (a3, w3) = HistorianAgent_new w2;
          (a4, w4) = ScribeAgent_new w3
      in (fold registerAgent [a1, a2, a3, a4] h, w4))"

definition AgentHub_new :: "vault_ref \<Rightarrow> world \<Rightarrow> AgentHub \<times> world" where
  "AgentHub_new kv w = initializeDefaultAgents \<lparr>agents = [], tasks = [], h_keyVault = kv\<rparr> w"

text \<open>
  The successive states of the \<^verbatim>\<open>task\<close> object of \<^verbatim>\<open>submitTask\<close>, one per
  assignment: the object literal, \<^verbatim>\<open>status = 'running'\<close>, the two writes of the
  \<^verbatim>\<open>try\<close> block on return or of the \<^verbatim>\<open>catch\<close> block on a throw, and the write of
  the \<^verbatim>\<open>finally\<close> block.
\<close>

definition errorMessage :: "thrown \<Rightarrow> string" where
  "errorMessage e = (case e of Error m \<Rightarrow> m | NonError \<Rightarrow> ''Unknown error'')"

definition task_states ::
  "string \<Rightarrow> string \<Rightarrow> string \<Rightarrow> int \<Rightarrow> string outcome \<Rightarrow> int \<Rightarrow> AgentTask list" where
  "task_states u agentId inp t0 r t1 =
     (let task = \<lparr>t_id = u, t_agentId = agentId, t_input = inp, t_status = Pending,
                  t_result = None, t_error = None, t_startTime = Some t0, t_endTime = None\<rparr>;
          running = task\<lparr>t_status := Running\<rparr>;
          settling = (case r of
                        Returned out \<Rightarrow> running\<lparr>t_result := Some out\<rparr>
                      | Raised e \<Rightarrow> running\<lparr>t_status := Failed\<rparr>);
          settled = (case r of
                       Returned out \<Rightarrow> settling\<lparr>t_status := Completed\<rparr>
                     | Raised e \<Rightarrow> settling\<lparr>t_error := Some (errorMessage e)\<rparr>)
      in [task, running, settling, settled, settled\<lparr>t_endTime := Some t1\<rparr>])"

text \<open>
  The task object is shared between the registry and the caller, so the registry entry
  ends in the state that is returned. The agent object is shared with the agent registry,
  whose keys are the agents' own ids.
\<close>

definition submitTask ::
  "string \<Rightarrow> string \<Rightarrow> AgentHub \<Rightarrow> world \<Rightarrow> (thrown + AgentTask) \<times> AgentHub \<times> world" where
  "submitTask agentId inp h w =
     (case map_of (agents h) agentId of
        None \<Rightarrow> (Inl (Error (''Agent '' @ agentId @ '' not found'')), h, w)
      | Some agent \<Rightarrow>
          (let (u, w1) = randomUUID w;
               (t0, w2) = Date_now w1;
               (r, agent', w3) = execute inp agent w2;
               (t1, w4) = Date_now w3;
               states = task_states u agentId inp t0 r t1;
               h1 = h\<lparr>tasks := AList.update u (hd states) (tasks h)\<rparr>;
               h2 = h1\<lparr>agents := AList.update agentId agent' (agents h1)\<rparr>;
               h3 = h2\<lparr>tasks := AList.update u (last states) (tasks h2)\<rparr>
           in (Inr (last states), h3, w4)))"

text \<open>
  \<^verbatim>\<open>submitTask\<close> is an \<^verbatim>\<open>async\<close> method with one \<^verbatim>\<open>await\<close>. A call runs without
  interruption up to the \<^verbatim>\<open>await\<close> and hands a pending promise to its caller; what
  follows the \<^verbatim>\<open>await\<close> runs later, once the awaited promise has settled, and other
  calls can run in between. \<open>submitTask_begin\<close> is the first part: the lookup, the task
  object, its registration, \<^verbatim>\<open>status = 'running'\<close> and the call of
  \<^verbatim>\<open>agent.execute(input)\<close>. It yields the task object and what the promise of
  \<^verbatim>\<open>execute\<close> settles with, a throw being its rejection (the built-in bodies contain no
  \<^verbatim>\<open>await\<close>, so they run to their end inside this part). \<open>submitTask_resume\<close> is the second part: the rest of the
  \<^verbatim>\<open>try\<close> block or the \<^verbatim>\<open>catch\<close> block, then the \<^verbatim>\<open>finally\<close> block.
  \<^const>\<open>submitTask\<close> above is the first part followed at once by the second, which is
  what a caller sees who awaits each call before making the next.
\<close>

definition submitTask_begin ::
  "string \<Rightarrow> string \<Rightarrow> AgentHub \<Rightarrow> world \<Rightarrow>
     (thrown + AgentTask \<times> string outcome) \<times> AgentHub \<times> world" where
  "submitTask_begin agentId inp h w =
     (case map_of (agents h) agentId of
        None \<Rightarrow> (Inl (Error (''Agent '' @ agentId @ '' not found'')), h, w)
      | Some agent \<Rightarrow>
          (let (u, w1) = randomUUID w;
               (t0, w2) = Date_now w1;
               task = \<lparr>t_id = u, t_agentId = agentId, t_input = inp, t_status = Pending,
                       t_result = None, t_error = None, t_startTime = Some t0,
                       t_endTime = None\<rparr>;
               h1 = h\<lparr>tasks := AList.update u task (tasks h)\<rparr>;
               running = task\<lparr>t_status := Running\<rparr>;
               (r, agent', w3) = execute inp agent w2;
               h2 = h1\<lparr>agents := AList.update agentId agent' (agents h1),
                       tasks := AList.update u running (tasks h1)\<rparr>
           in (Inr (running, r), h2, w3)))"

definition submitTask_resume ::
  "AgentTask \<Rightarrow> string outcome \<Rightarrow> AgentHub \<Rightarrow> world \<Rightarrow> AgentTask \<times> AgentHub \<times> world" where
  "submitTask_resume running r h w =
     (let settled = (case r of
                       Returned out \<Rightarrow> running\<lparr>t_result := Some out, t_status := Completed\<rparr>
                     | Raised e \<Rightarrow> running\<lparr>t_status := Failed, t_error := Some (errorMessage e)\<rparr>);
          (t1, w') = Date_now w;
          ended = settled\<lparr>t_endTime := Some t1\<rparr>
      in (ended, h\<lparr>tasks := AList.update (t_id ended) ended (tasks h)\<rparr>, w'))"

text \<open>
  The four convenience methods are one body with two string constants: the agent's name
  and the message of the error thrown when no agent has that name. The promise they
  return settles as the agent's does.
\<close>

definition dispatch ::
  "string \<Rightarrow> string \<Rightarrow> string \<Rightarrow> AgentHub \<Rightarrow> world \<Rightarrow> (thrown + string) \<times> AgentHub \<times> world" where
  "dispatch agentName unavailable inp h w =
     (case getAgentByName agentName h of
        None \<Rightarrow> (Inl (Error unavailable), h, w)
      | Some agent \<Rightarrow>
          (let (r, agent', w') = execute inp agent w;
               h' = h\<lparr>agents := AList.update (a_id agent) agent' (agents h)\<rparr>
           in (case r of Returned out \<Rightarrow> (Inr out, h', w') | Raised e \<Rightarrow> (Inl e, h', w'))))"

definition askArchitect :: "string \<Rightarrow> AgentHub \<Rightarrow> world \<Rightarrow> (thrown + string) \<times> AgentHub \<times> world" where
  "askArchitect question = dispatch ''The Architect'' ''Architect agent not available'' question"

definition challengeCode :: "string \<Rightarrow> AgentHub \<Rightarrow> world \<Rightarrow> (thrown + string) \<times> AgentHub \<times> world" where
  "challengeCode code =
     dispatch (''The Devil'' @ [CHR 0x27] @ ''s Advocate'')
       (''Devil'' @ [CHR 0x27] @ ''s Advocate agent not available'') code"

definition hub_getHistory :: "string \<Rightarrow> AgentHub \<Rightarrow> world \<Rightarrow> (thrown + string) \<times> AgentHub \<times> world" where
  "hub_getHistory query = dispatch ''The Historian'' ''Historian agent not available'' query"

definition documentCode :: "string \<Rightarrow> AgentHub \<Rightarrow> world \<Rightarrow> (thrown + string) \<times> AgentHub \<times> world" where
  "documentCode code = dispatch ''The Scribe'' ''Scribe agent not available'' code"

definition getTask :: "string \<Rightarrow> AgentHub \<Rightarrow> AgentTask option" where
  "getTask taskId h = map_of (tasks h) taskId"

definition getTasksByAgent :: "string \<Rightarrow> AgentHub \<Rightarrow> AgentTask list" where
  "getTasksByAgent agentId h = filter (\<lambda>t. t_agentId t = agentId) (map snd (tasks h))"

section \<open>Sessions (core/SessionManager.ts)\<close>

text \<open>
  A JavaScript number that is an amount of money: a rational, or \<open>NaN\<close>. The falsy numbers
  are zero and \<open>NaN\<close>.
\<close>

datatype number = Num rat | NaN

fun truthy :: "number \<Rightarrow> bool" where
  "truthy (Num r) = (r \<noteq> 0)"
| "truthy NaN = False"

record Participant =
  p_id :: string
  username :: string
  color :: string
  p_isHost :: bool
  joinedAt :: int
  lastSeen :: int

record 'b SessionConfig =
  c_name :: string
  c_hostId :: string
  c_budget :: 'b
  allowGuests :: bool

text \<open>
  Modelled from the spec: the class \<^verbatim>\<open>SyncEngine\<close> (sync/SyncEngine.ts) is not among the
  sources. The spec gives its interface: it is constructed with the host's identifier and
  exposes \<^verbatim>\<open>removeCursor(participantId)\<close>. The engine is represented by what it has been
  told: its constructor argument and the \<^verbatim>\<open>removeCursor\<close> calls received, oldest first.
\<close>

record SyncEngine =
  se_userId :: string
  removeCursor_calls :: "string list"

definition SyncEngine_new :: "string \<Rightarrow> SyncEngine" where
  "SyncEngine_new userId = \<lparr>se_userId = userId, removeCursor_calls = []\<rparr>"

definition removeCursor :: "string \<Rightarrow> SyncEngine \<Rightarrow> SyncEngine" where
  "removeCursor participantId e = e\<lparr>removeCursor_calls := removeCursor_calls e @ [participantId]\<rparr>"

text \<open>
  The class \<^verbatim>\<open>KeyVault\<close> (core/KeyVault.ts) is not among the sources either. Its two
  methods that \<^verbatim>\<open>Session\<close> calls are a parameter of the model: any pair of functions over
  any ledger state \<open>'l\<close>. A session holds the address of its vault; the vaults themselves
  live in a store, so that two sessions can share one.
\<close>

record 'l KeyVault =
  kv_getBudgetRemaining :: "'l \<Rightarrow> number"
  kv_recordSpend :: "number \<Rightarrow> 'l \<Rightarrow> bool \<times> 'l"

type_synonym 'l vaults = "vault_ref \<Rightarrow> 'l"

record Session =
  s_id :: string
  s_name :: string
  hostId :: string
  participants :: "(string \<times> Participant) list"
  syncEngine :: SyncEngine
  keyVault :: vault_ref
  budget :: number
  isActive :: bool

definition digits :: string where
  "digits = ''0123456789''"

fun string_of_nat :: "nat \<Rightarrow> string" where
  "string_of_nat n =
     (if n < 10 then [digits ! n] else string_of_nat (n div 10) @ [digits ! (n mod 10)])"

declare string_of_nat.simps [simp del]

definition adjectives :: "string list" where
  "adjectives = [''cool'', ''epic'', ''awesome'', ''blazing'', ''stellar'']"

definition nouns :: "string list" where
  "nouns = [''project'', ''code'', ''hack'', ''build'', ''venture'']"

definition generateSessionId :: "world \<Rightarrow> string \<times> world" where
  "generateSessionId w =
     (let (r1, w1) = Math_random w;
          adj = adjectives ! nat \<lfloor>r1 * of_nat (length adjectives)\<rfloor>;
          (r2, w2) = Math_random w1;
          noun = nouns ! nat \<lfloor>r2 * of_nat (length nouns)\<rfloor>;
          (r3, w3) = Math_random w2;
          num = nat \<lfloor>r3 * 1000\<rfloor>
      in (adj @ ''-'' @ noun @ ''-'' @ string_of_nat num, w3))"

definition colors :: "string list" where
  "colors = [''#FF6B6B'', ''#4ECDC4'', ''#45B7D1'', ''#96CEB4'',
             ''#FFEAA7'', ''#DDA0DD'', ''#98D8C8'', ''#F7DC6F'']"

definition generateColor :: "Session \<Rightarrow> string" where
  "generateColor s = colors ! (length (participants s) mod length colors)"

definition getInviteLink :: "Session \<Rightarrow> string" where
  "getInviteLink s = ''hivemind.io/join/'' @ s_id s"

text \<open>
  \<^verbatim>\<open>addParticipant\<close> writes to its argument before storing it; the written record is
  returned beside the session.
\<close>

definition addParticipant :: "Participant \<Rightarrow> Session \<Rightarrow> Participant \<times> Session" where
  "addParticipant participant s =
     (let p = participant\<lparr>color := (if color participant \<noteq> [] then color participant
                                      else generateColor s)\<rparr>
      in (p, s\<lparr>participants := AList.update (p_id p) p (participants s)\<rparr>))"

definition removeParticipant :: "string \<Rightarrow> Session \<Rightarrow> Session" where
  "removeParticipant participantId s =
     s\<lparr>participants := AList.delete participantId (participants s),
       syncEngine := removeCursor participantId (syncEngine s)\<rparr>"

definition getParticipant :: "string \<Rightarrow> Session \<Rightarrow> Participant option" where
  "getParticipant i s = map_of (participants s) i"

definition getParticipants :: "Session \<Rightarrow> Participant list" where
  "getParticipants s = map snd (participants s)"

definition isHost :: "string \<Rightarrow> Session \<Rightarrow> bool" where
  "isHost userId s = (hostId s = userId)"

definition getSyncEngine :: "Session \<Rightarrow> SyncEngine" where
  "getSyncEngine s = syncEngine s"

definition getBudgetRemaining :: "'l KeyVault \<Rightarrow> Session \<Rightarrow> 'l vaults \<Rightarrow> number" where
  "getBudgetRemaining kv s vs = kv_getBudgetRemaining kv (vs (keyVault s))"

definition recordAiUsage :: "'l KeyVault \<Rightarrow> number \<Rightarrow> Session \<Rightarrow> 'l vaults \<Rightarrow> bool \<times> 'l vaults" where
  "recordAiUsage kv cost s vs =
     (let (accepted, l) = kv_recordSpend kv cost (vs (keyVault s))
      in (accepted, vs(keyVault s := l)))"

definition end_session :: "Session \<Rightarrow> Session" where
  "end_session s = s\<lparr>isActive := False, participants := []\<rparr>"

record SessionStatus =
  st_id :: string
  st_name :: string
  st_participants :: nat
  st_budgetRemaining :: number
  st_isActive :: bool

definition getStatus :: "'l KeyVault \<Rightarrow> Session \<Rightarrow> 'l vaults \<Rightarrow> SessionStatus" where
  "getStatus kv s vs =
     \<lparr>st_id = s_id s, st_name = s_name s, st_participants = length (participants s),
      st_budgetRemaining = getBudgetRemaining kv s vs, st_isActive = isActive s\<rparr>"

definition Session_new :: "number SessionConfig \<Rightarrow> vault_ref \<Rightarrow> world \<Rightarrow> Session \<times> world" where
  "Session_new config kv w =
     (let (i, w1) = generateSessionId w;
          s = \<lparr>s_id = i, s_name = c_name config, hostId = c_hostId config,
               participants = [], syncEngine = SyncEngine_new (c_hostId config),
               keyVault = kv, budget = c_budget config, isActive = True\<rparr>;
          c = generateColor s;
          (t1, w2) = Date_now w1;
          (t2, w3) = Date_now w2
      in (snd (addParticipant
                 \<lparr>p_id = c_hostId config, username = ''Host'', color = c, p_isHost = True,
                  joinedAt = t1, lastSeen = t2\<rparr> s), w3))"

record SessionManager =
  sessions :: "(string \<times> Session) list"
  m_keyVault :: vault_ref

definition SessionManager_new :: "vault_ref \<Rightarrow> SessionManager" where
  "SessionManager_new kv = \<lparr>sessions = [], m_keyVault = kv\<rparr>"

definition createSession ::
  "number option SessionConfig \<Rightarrow> SessionManager \<Rightarrow> world \<Rightarrow> Session \<times> SessionManager \<times> world" where
  "createSession config m w =
     (let b = (case c_budget config of
                 None \<Rightarrow> Num 5
               | Some x \<Rightarrow> if truthy x then x else Num 5);
          (session, w') = Session_new
             \<lparr>c_name = c_name config, c_hostId = c_hostId config, c_budget = b,
              allowGuests = allowGuests config\<rparr> (m_keyVault m) w
      in (session, m\<lparr>sessions := AList.update (s_id session) session (sessions m)\<rparr>, w'))"

definition getSession :: "string \<Rightarrow> SessionManager \<Rightarrow> Session option" where
  "getSession sessionId m = map_of (sessions m) sessionId"

record ParticipantStub =
  stub_id :: string
  stub_username :: string
  stub_color :: string

text \<open>
  The session object found in the registry is the one mutated and returned, so the
  registry entry is replaced by the session after \<^verbatim>\<open>addParticipant\<close>.
\<close>

definition joinSession ::
  "string \<Rightarrow> ParticipantStub \<Rightarrow> SessionManager \<Rightarrow> world \<Rightarrow>
     (thrown + Session) \<times> SessionManager \<times> world" where
  "joinSession sessionId participant m w =
     (case map_of (sessions m) sessionId of
        None \<Rightarrow> (Inl (Error (''Session '' @ sessionId @ '' not found'')), m, w)
      | Some session \<Rightarrow>
          (let (t1, w1) = Date_now w;
               (t2, w2) = Date_now w1;
               session' = snd (addParticipant
                   \<lparr>p_id = stub_id participant, username = stub_username participant,
                    color = stub_color participant, p_isHost = False,
                    joinedAt = t1, lastSeen = t2\<rparr> session)
           in (Inr session', m\<lparr>sessions := AList.update sessionId session' (sessions m)\<rparr>, w2)))"

definition leaveSession :: "string \<Rightarrow> string \<Rightarrow> SessionManager \<Rightarrow> SessionManager" where
  "leaveSession sessionId participantId m =
     (case map_of (sessions m) sessionId of
        None \<Rightarrow> m
      | Some session \<Rightarrow>
          m\<lparr>sessions := AList.update sessionId (removeParticipant participantId session) (sessions m)\<rparr>)"

text \<open>
  \<^verbatim>\<open>endSession\<close> ends the session object and drops it from the registry; the ended
  object, which callers may still hold, is returned beside the manager.
\<close>

definition endSession :: "string \<Rightarrow> SessionManager \<Rightarrow> Session option \<times> SessionManager" where
  "endSession sessionId m =
     (case map_of (sessions m) sessionId of
        None \<Rightarrow> (None, m)
      | Some session \<Rightarrow>
          (Some (end_session session), m\<lparr>sessions := AList.delete sessionId (sessions m)\<rparr>))"

definition listSessions :: "SessionManager \<Rightarrow> Session list" where
  "listSessions m = map snd (sessions m)"

section \<open>Sequences of calls\<close>

text \<open>A sequence of \<^verbatim>\<open>addParticipant\<close> calls on one session, in order.\<close>

fun addParticipants :: "Participant list \<Rightarrow> Session \<Rightarrow> Session" where
  "addParticipants [] s = s"
| "addParticipants (p # ps) s = addParticipants ps (snd (addParticipant p s))"

text \<open>
  The methods of \<^verbatim>\<open>Session\<close> that write to the session object. The remaining methods
  read it, and \<^verbatim>\<open>recordAiUsage\<close> writes to the vault only.
\<close>

datatype session_call = AddParticipant Participant | RemoveParticipant string | End

fun call :: "session_call \<Rightarrow> Session \<Rightarrow> Session" where
  "call (AddParticipant p) s = snd (addParticipant p s)"
| "call (RemoveParticipant i) s = removeParticipant i s"
| "call End s = end_session s"

section \<open>Concrete inputs\<close>

text \<open>
  A platform whose clock starts at 1000 and advances by one per reading, whose k-th
  identifier is \<open>uuid-k\<close> and whose random numbers are all zero.
\<close>

definition world0 :: world where
  "world0 = \<lparr>clock = (\<lambda>k. 1000 + int k), ticks = 0,
             uuids = (\<lambda>k. ''uuid-'' @ string_of_nat k), drawn = 0,
             randoms = (\<lambda>k. 0), rolled = 0\<rparr>"

text \<open>The hub as constructed on that platform, and the platform it leaves.\<close>

definition hub0 :: AgentHub where
  "hub0 = fst (AgentHub_new 0 world0)"

definition world1 :: world where
  "world1 = snd (AgentHub_new 0 world0)"

definition architect0 :: Agent where
  "architect0 = fst (ArchitectAgent_new world0)"

text \<open>
  Two calls of \<^verbatim>\<open>submitTask\<close> for the Architect made one after the other without
  awaiting the first: the state after the first parts of both. \<open>architect1\<close> is the
  Architect after the first call.
\<close>

definition firstCall :: "(thrown + AgentTask \<times> string outcome) \<times> AgentHub \<times> world" where
  "firstCall = submitTask_begin ''uuid-0'' ''x'' hub0 world1"

definition secondCall :: "(thrown + AgentTask \<times> string outcome) \<times> AgentHub \<times> world" where
  "secondCall = submitTask_begin ''uuid-0'' ''y'' (fst (snd firstCall)) (snd (snd firstCall))"

definition architect1 :: Agent where
  "architect1 = architect0\<lparr>history :=
      [\<lparr>role = User, content = ''x'', timestamp = 1001\<rparr>,
       \<lparr>role = Assistant, content = ''[Architect Analysis]'' @ newline @ ''x'',
        timestamp = 1002\<rparr>]\<rparr>"

text \<open>Custom agents: one that returns a fixed string, one that throws a fixed value.\<close>

definition customAgent :: "string \<Rightarrow> behaviour \<Rightarrow> Agent" where
  "customAgent i f =
     \<lparr>a_id = i, a_name = ''Custom'', provider = ''local'', model = ''none'',
      systemPrompt = [], history = [], variant = CustomAgent f\<rparr>"

definition replying :: "string \<Rightarrow> behaviour" where
  "replying out inp h = (Returned out, h)"

definition throwing :: "thrown \<Rightarrow> behaviour" where
  "throwing e inp h = (Raised e, h)"

definition hubCustom :: "behaviour \<Rightarrow> AgentHub" where
  "hubCustom f = registerAgent (customAgent ''a1'' f) hub0"

text \<open>
  A session as constructed on the platform \<^const>\<open>world0\<close>, the platform it leaves, a
  manager holding one such session, and a participant record without a colour.
\<close>

definition config0 :: "number SessionConfig" where
  "config0 = \<lparr>c_name = ''demo'', c_hostId = ''host'', c_budget = Num 5, allowGuests = True\<rparr>"

definition session0 :: Session where
  "session0 = fst (Session_new config0 0 world0)"

definition world2 :: world where
  "world2 = snd (Session_new config0 0 world0)"

definition manager0 :: SessionManager where
  "manager0 = fst (snd (createSession
      \<lparr>c_name = ''demo'', c_hostId = ''host'', c_budget = None, allowGuests = True\<rparr>
      (SessionManager_new 0) world0))"

definition guest :: "string \<Rightarrow> Participant" where
  "guest i = \<lparr>p_id = i, username = i, color = [], p_isHost = False,
              joinedAt = 2000, lastSeen = 2000\<rparr>"

definition configWith :: "number option \<Rightarrow> number option SessionConfig" where
  "configWith b = \<lparr>c_name = ''demo'', c_hostId = ''host'', c_budget = b, allowGuests = True\<rparr>"

text \<open>
  An instance of the vault parameter: the ledger state is the amount remaining, and a spend
  is accepted when it fits. Every vault of the store holds 5.
\<close>

definition exampleVault :: "rat KeyVault" where
  "exampleVault =
     \<lparr>kv_getBudgetRemaining = Num,
      kv_recordSpend = (\<lambda>cost l. case cost of
          Num c \<Rightarrow> if c \<le> l then (True, l - c) else (False, l)
        | NaN \<Rightarrow> (False, l))\<rparr>"

definition vaults0 :: "rat vaults" where
  "vaults0 = (\<lambda>r. 5)"

section \<open>Properties of the agent hub\<close>

lemma echo_eq:
  "echo label inp a w =
     (Returned (label @ newline @ inp),
      a\<lparr>history := history a @
          [\<lparr>role = User, content = inp, timestamp = clock w (ticks w)\<rparr>,
           \<lparr>role = Assistant, content = label @ newline @ inp,
            timestamp = clock w (Suc (ticks w))\<rparr>]\<rparr>,
      w\<lparr>ticks := Suc (Suc (ticks w))\<rparr>)"
  by (simp add: echo_def Date_now_def addToHistory_def Let_def)

lemma execute_world:
  assumes "execute inp a w = (r, a', w')"
  shows "clock w' = clock w \<and> ticks w \<le> ticks w' \<and> uuids w' = uuids w \<and> drawn w' = drawn w"
  using assms
  by (auto simp: execute_def echo_eq Let_def split: variant.splits prod.splits)

lemma execute_nonempty:
  assumes "fst (execute inp a w) = Returned out" and "\<forall>f. variant a \<noteq> CustomAgent f"
  shows "out \<noteq> []"
  using assms
  by (auto simp: execute_def echo_eq split: variant.splits)

lemma last_task_states_Returned:
  "last (task_states u agentId inp t0 (Returned out) t1) =
     \<lparr>t_id = u, t_agentId = agentId, t_input = inp, t_status = Completed,
      t_result = Some out, t_error = None, t_startTime = Some t0, t_endTime = Some t1\<rparr>"
  by (simp add: task_states_def Let_def)

lemma last_task_states_Raised:
  "last (task_states u agentId inp t0 (Raised e) t1) =
     \<lparr>t_id = u, t_agentId = agentId, t_input = inp, t_status = Failed,
      t_result = None, t_error = Some (errorMessage e), t_startTime = Some t0,
      t_endTime = Some t1\<rparr>"
  by (simp add: task_states_def Let_def)

lemma endTime_butlast_task_states:
  "s \<in> set (butlast (task_states u agentId inp t0 r t1)) \<Longrightarrow> t_endTime s = None"
  by (cases r) (auto simp: task_states_def Let_def)

lemma last_task_states_finally:
  "last (task_states u agentId inp t0 r t1) =
     (last (butlast (task_states u agentId inp t0 r t1)))\<lparr>t_endTime := Some t1\<rparr>"
  by (simp add: task_states_def Let_def)

lemma errorMessage_empty: "errorMessage e = [] \<longleftrightarrow> e = Error []"
  by (cases e) (simp_all add: errorMessage_def)

text \<open>What \<^const>\<open>submitTask\<close> computes for a registered agent, in one equation.\<close>

lemma submitTask_found:
  assumes "map_of (agents h) agentId = Some agent"
    and "execute inp agent (snd (Date_now (snd (randomUUID w)))) = (r, agent', w')"
  shows "submitTask agentId inp h w =
     (let u = uuids w (drawn w); t0 = clock w (ticks w); t1 = clock w' (ticks w');
          task = last (task_states u agentId inp t0 r t1)
      in (Inr task,
          h\<lparr>agents := AList.update agentId agent' (agents h),
            tasks := AList.update u task (tasks h)\<rparr>,
          w'\<lparr>ticks := Suc (ticks w')\<rparr>))"
  using assms
  by (simp add: submitTask_def randomUUID_def Date_now_def Let_def split: prod.splits)

subsection \<open>The concrete hub\<close>

lemmas new_defs = AgentHub_new_def initializeDefaultAgents_def ArchitectAgent_new_def
  DevilsAdvocateAgent_new_def HistorianAgent_new_def ScribeAgent_new_def Agent_new_def
  randomUUID_def registerAgent_def

lemma uuids_world0: "uuids world0 k = ''uuid-'' @ string_of_nat k"
  and clock_world0: "clock world0 k = 1000 + int k"
  and counters_world0: "ticks world0 = 0" "drawn world0 = 0" "rolled world0 = 0"
  by (simp_all add: world0_def)

lemma world1_eq: "world1 = world0\<lparr>drawn := 4\<rparr>"
  by (simp add: world1_def new_defs world0_def)

lemma mono_clock_world1: "mono (clock world1)"
  by (simp add: world1_eq clock_world0 mono_def)

lemma hub0_agents: "map fst (agents hub0) = [''uuid-0'', ''uuid-1'', ''uuid-2'', ''uuid-3'']"
  by (simp add: hub0_def new_defs uuids_world0 counters_world0 string_of_nat.simps digits_def)

lemma hub0_architect: "map_of (agents hub0) ''uuid-0'' = Some architect0"
  by (simp add: hub0_def architect0_def new_defs uuids_world0 counters_world0
      string_of_nat.simps digits_def)

lemma hubCustom_a1: "map_of (agents (hubCustom f)) ''a1'' = Some (customAgent ''a1'' f)"
  by (simp add: hubCustom_def registerAgent_def customAgent_def update_conv')

lemma execute_customAgent:
  "f inp [] = (r, []) \<Longrightarrow> execute inp (customAgent i f) w = (r, customAgent i f, w)"
  by (simp add: execute_def customAgent_def)

subsection \<open>Unregistered agent\<close>

text \<open>
  C3. \<^verbatim>\<open>submitTask(agentId, input)\<close> with an unregistered \<^verbatim>\<open>agentId\<close> throws the
  not-found error and leaves everything as it was: the hub that comes back is the hub that
  went in (same task registry, same agent registry), and no identifier or clock reading
  has been consumed.
\<close>

theorem submitTask_unregistered:
  assumes "map_of (agents h) agentId = None"
  shows "submitTask agentId inp h w =
           (Inl (Error (''Agent '' @ agentId @ '' not found'')), h, w)"
  using assms by (simp add: submitTask_def)

theorem submitTask_unregistered_witness:
  "map_of (agents hub0) ''unknown-agent'' = None \<and>
   submitTask ''unknown-agent'' ''x'' hub0 world1 =
     (Inl (Error ''Agent unknown-agent not found''), hub0, world1)"
proof -
  have h: "map_of (agents hub0) ''unknown-agent'' = None"
    by (simp add: map_of_eq_None_iff hub0_agents flip: set_map)
  show ?thesis using h submitTask_unregistered [OF h, of "''x''" world1] by simp
qed

subsection \<open>More facts about the concrete hub\<close>

lemma variant_architect0: "variant architect0 = ArchitectAgent"
  by (simp add: architect0_def ArchitectAgent_new_def Agent_new_def randomUUID_def)

lemma name_architect0: "a_name architect0 = ''The Architect''"
  by (simp add: architect0_def ArchitectAgent_new_def Agent_new_def randomUUID_def)

lemma execute_architect:
  "variant a = ArchitectAgent \<Longrightarrow>
     fst (execute inp a w) = Returned (''[Architect Analysis]'' @ newline @ inp)"
  by (simp add: execute_def echo_eq)

lemma hub0_getAgentByName: "getAgentByName ''The Architect'' hub0 = Some architect0"
  by (simp add: getAgentByName_def hub0_def architect0_def new_defs uuids_world0
      counters_world0 string_of_nat.simps digits_def)

lemma dispatch_Returned:
  assumes "getAgentByName n h = Some a" and "fst (execute inp a w) = Returned out"
  shows "fst (dispatch n unavailable inp h w) = Inr out"
  using assms by (auto simp: dispatch_def Let_def split: prod.splits outcome.splits)

subsection \<open>A call that returns\<close>

text \<open>
  C1, as amended. When \<^verbatim>\<open>agentId\<close> is registered and the agent's \<^verbatim>\<open>execute(input)\<close>
  returns \<open>out\<close>, \<^verbatim>\<open>submitTask\<close> returns a task (it does not throw) that carries the
  agent id and the input, has status \<open>Completed\<close>, result \<open>out\<close> and no error, and is the
  registry's entry under its id. Its start time is at most its end time provided the clock
  never runs backwards. The result is a non-empty string whenever the agent is one of the
  four built-in variants; for a custom agent it is whatever that agent returned.
\<close>

theorem submitTask_success:
  assumes "map_of (agents h) agentId = Some agent"
    and "fst (execute inp agent (snd (Date_now (snd (randomUUID w))))) = Returned out"
    and "mono (clock w)"
  shows "\<exists>task h' w'. submitTask agentId inp h w = (Inr task, h', w') \<and>
           t_agentId task = agentId \<and> t_input task = inp \<and>
           t_status task = Completed \<and> t_result task = Some out \<and> t_error task = None \<and>
           (\<exists>t0 t1. t_startTime task = Some t0 \<and> t_endTime task = Some t1 \<and> t0 \<le> t1) \<and>
           getTask (t_id task) h' = Some task \<and>
           ((\<forall>f. variant agent \<noteq> CustomAgent f) \<longrightarrow> out \<noteq> [])"
proof -
  obtain agent' w' where ex:
    "execute inp agent (snd (Date_now (snd (randomUUID w)))) = (Returned out, agent', w')"
    using assms(2) by (cases "execute inp agent (snd (Date_now (snd (randomUUID w))))") auto
  from execute_world [OF ex] have cl: "clock w' = clock w" and tk: "ticks w \<le> ticks w'"
    by (simp_all add: Date_now_def randomUUID_def)
  from assms(3) tk have le: "clock w (ticks w) \<le> clock w' (ticks w')"
    by (simp add: cl mono_def)
  have ne: "(\<forall>f. variant agent \<noteq> CustomAgent f) \<longrightarrow> out \<noteq> []"
    using execute_nonempty [OF assms(2)] by blast
  show ?thesis
    using le ne
    by (simp add: submitTask_found [OF assms(1) ex] Let_def last_task_states_Returned
        getTask_def update_conv')
qed

theorem submitTask_success_witness:
  "map_of (agents hub0) ''uuid-0'' = Some architect0 \<and>
   fst (execute ''hello'' architect0 (snd (Date_now (snd (randomUUID world1))))) =
     Returned (''[Architect Analysis]'' @ newline @ ''hello'') \<and>
   mono (clock world1) \<and>
   (\<forall>f. variant architect0 \<noteq> CustomAgent f) \<and>
   (\<exists>task h' w'. submitTask ''uuid-0'' ''hello'' hub0 world1 = (Inr task, h', w') \<and>
      t_agentId task = ''uuid-0'' \<and> t_input task = ''hello'' \<and>
      t_status task = Completed \<and>
      t_result task = Some (''[Architect Analysis]'' @ newline @ ''hello'') \<and>
      t_error task = None \<and>
      (\<exists>t0 t1. t_startTime task = Some t0 \<and> t_endTime task = Some t1 \<and> t0 \<le> t1) \<and>
      getTask (t_id task) h' = Some task \<and>
      ''[Architect Analysis]'' @ newline @ ''hello'' \<noteq> [])"
proof -
  have ex: "fst (execute ''hello'' architect0 (snd (Date_now (snd (randomUUID world1))))) =
     Returned (''[Architect Analysis]'' @ newline @ ''hello'')"
    by (rule execute_architect [OF variant_architect0])
  have v: "\<forall>f. variant architect0 \<noteq> CustomAgent f"
    by (simp add: variant_architect0)
  from submitTask_success [OF hub0_architect ex mono_clock_world1] v
  show ?thesis
    using hub0_architect ex mono_clock_world1 by blast
qed

text \<open>
  C1 as stated fails: a registered custom agent whose \<^verbatim>\<open>execute\<close> returns the empty
  string yields a completed task whose result is the empty string.
\<close>

theorem submitTask_empty_result_counterexample:
  "fst (submitTask ''a1'' ''hello'' (hubCustom (replying [])) world1) =
     Inr \<lparr>t_id = ''uuid-4'', t_agentId = ''a1'', t_input = ''hello'', t_status = Completed,
          t_result = Some [], t_error = None, t_startTime = Some 1000, t_endTime = Some 1001\<rparr>"
proof -
  have ex: "execute ''hello'' (customAgent ''a1'' (replying []))
              (snd (Date_now (snd (randomUUID world1)))) =
            (Returned [], customAgent ''a1'' (replying []), snd (Date_now (snd (randomUUID world1))))"
    by (rule execute_customAgent) (simp add: replying_def)
  show ?thesis
    unfolding submitTask_found [OF hubCustom_a1 ex]
    by (simp add: Let_def last_task_states_Returned
        world1_eq uuids_world0 clock_world0 counters_world0 Date_now_def randomUUID_def
        string_of_nat.simps digits_def)
qed

subsection \<open>A call that throws\<close>

text \<open>
  C2, as amended. When \<^verbatim>\<open>agentId\<close> is registered, \<^verbatim>\<open>submitTask\<close> returns a task
  whatever the agent's \<^verbatim>\<open>execute(input)\<close> did (outcome \<open>r\<close>, a return or a throw): it
  never throws itself. The task returned is the last state of the task object, and it is
  the registry's entry. In every earlier state of the object the end time is unset; the
  last write sets the end time and nothing else, so the outcome is recorded before it, on
  both paths. When the agent threw \<open>e\<close>, the status is \<open>Failed\<close>, there is no result,
  and the error is the message of \<open>e\<close> if \<open>e\<close> is an \<^verbatim>\<open>Error\<close> and \<open>Unknown error\<close>
  otherwise; that string is empty exactly when \<open>e\<close> is an \<^verbatim>\<open>Error\<close> with an empty
  message.
\<close>

theorem submitTask_settles:
  assumes "map_of (agents h) agentId = Some agent"
    and "fst (execute inp agent (snd (Date_now (snd (randomUUID w))))) = r"
  shows "\<exists>u t0 t1 h' w'.
           submitTask agentId inp h w = (Inr (last (task_states u agentId inp t0 r t1)), h', w') \<and>
           getTask u h' = Some (last (task_states u agentId inp t0 r t1)) \<and>
           (\<forall>s \<in> set (butlast (task_states u agentId inp t0 r t1)). t_endTime s = None) \<and>
           t_endTime (last (task_states u agentId inp t0 r t1)) = Some t1 \<and>
           last (task_states u agentId inp t0 r t1) =
             (last (butlast (task_states u agentId inp t0 r t1)))\<lparr>t_endTime := Some t1\<rparr> \<and>
           (\<forall>e. r = Raised e \<longrightarrow>
              t_status (last (task_states u agentId inp t0 r t1)) = Failed \<and>
              t_result (last (task_states u agentId inp t0 r t1)) = None \<and>
              t_error (last (task_states u agentId inp t0 r t1)) = Some (errorMessage e) \<and>
              (errorMessage e = [] \<longleftrightarrow> e = Error []))"
proof -
  obtain agent' w' where ex:
    "execute inp agent (snd (Date_now (snd (randomUUID w)))) = (r, agent', w')"
    using assms(2) by (cases "execute inp agent (snd (Date_now (snd (randomUUID w))))") auto
  let ?ss = "task_states (uuids w (drawn w)) agentId inp (clock w (ticks w)) r (clock w' (ticks w'))"
  have 1: "submitTask agentId inp h w =
             (Inr (last ?ss),
              h\<lparr>agents := AList.update agentId agent' (agents h),
                tasks := AList.update (uuids w (drawn w)) (last ?ss) (tasks h)\<rparr>,
              w'\<lparr>ticks := Suc (ticks w')\<rparr>)"
    by (simp add: submitTask_found [OF assms(1) ex] Let_def)
  have 2: "getTask (uuids w (drawn w))
             (h\<lparr>agents := AList.update agentId agent' (agents h),
               tasks := AList.update (uuids w (drawn w)) (last ?ss) (tasks h)\<rparr>) = Some (last ?ss)"
    by (simp add: getTask_def update_conv')
  have 3: "\<forall>s \<in> set (butlast ?ss). t_endTime s = None"
    using endTime_butlast_task_states by blast
  have 4: "t_endTime (last ?ss) = Some (clock w' (ticks w'))"
    by (subst last_task_states_finally) simp
  have 5: "\<forall>e. r = Raised e \<longrightarrow>
              t_status (last ?ss) = Failed \<and> t_result (last ?ss) = None \<and>
              t_error (last ?ss) = Some (errorMessage e) \<and>
              (errorMessage e = [] \<longleftrightarrow> e = Error [])"
    by (simp add: last_task_states_Raised errorMessage_empty)
  show ?thesis
    using 1 2 3 4 5 last_task_states_finally by blast
qed

theorem submitTask_settles_witness:
  "map_of (agents (hubCustom (throwing (Error ''boom'')))) ''a1'' =
     Some (customAgent ''a1'' (throwing (Error ''boom''))) \<and>
   fst (execute ''hello'' (customAgent ''a1'' (throwing (Error ''boom'')))
          (snd (Date_now (snd (randomUUID world1))))) = Raised (Error ''boom'') \<and>
   (\<exists>u t0 t1 h' w'.
      submitTask ''a1'' ''hello'' (hubCustom (throwing (Error ''boom''))) world1 =
        (Inr (last (task_states u ''a1'' ''hello'' t0 (Raised (Error ''boom'')) t1)), h', w') \<and>
      getTask u h' = Some (last (task_states u ''a1'' ''hello'' t0 (Raised (Error ''boom'')) t1)) \<and>
      (\<forall>s \<in> set (butlast (task_states u ''a1'' ''hello'' t0 (Raised (Error ''boom'')) t1)).
         t_endTime s = None) \<and>
      t_endTime (last (task_states u ''a1'' ''hello'' t0 (Raised (Error ''boom'')) t1)) = Some t1 \<and>
      last (task_states u ''a1'' ''hello'' t0 (Raised (Error ''boom'')) t1) =
        (last (butlast (task_states u ''a1'' ''hello'' t0 (Raised (Error ''boom'')) t1)))
          \<lparr>t_endTime := Some t1\<rparr> \<and>
      (\<forall>e. Raised (Error ''boom'') = Raised e \<longrightarrow>
         t_status (last (task_states u ''a1'' ''hello'' t0 (Raised (Error ''boom'')) t1)) = Failed \<and>
         t_result (last (task_states u ''a1'' ''hello'' t0 (Raised (Error ''boom'')) t1)) = None \<and>
         t_error (last (task_states u ''a1'' ''hello'' t0 (Raised (Error ''boom'')) t1)) =
           Some (errorMessage e) \<and>
         (errorMessage e = [] \<longleftrightarrow> e = Error [])))"
proof -
  have ex: "fst (execute ''hello'' (customAgent ''a1'' (throwing (Error ''boom'')))
          (snd (Date_now (snd (randomUUID world1))))) = Raised (Error ''boom'')"
    by (simp add: execute_customAgent throwing_def)
  note t = submitTask_settles [OF hubCustom_a1 ex]
  show ?thesis using hubCustom_a1 ex t by simp
qed

text \<open>
  C2 as stated fails: when a registered agent throws an \<^verbatim>\<open>Error\<close> whose message is
  empty (as \<^verbatim>\<open>new Error()\<close> has), the failed task's error is the empty string.
\<close>

theorem submitTask_empty_error_counterexample:
  "fst (submitTask ''a1'' ''hello'' (hubCustom (throwing (Error []))) world1) =
     Inr \<lparr>t_id = ''uuid-4'', t_agentId = ''a1'', t_input = ''hello'', t_status = Failed,
          t_result = None, t_error = Some [], t_startTime = Some 1000, t_endTime = Some 1001\<rparr>"
proof -
  have ex: "execute ''hello'' (customAgent ''a1'' (throwing (Error [])))
              (snd (Date_now (snd (randomUUID world1)))) =
            (Raised (Error []), customAgent ''a1'' (throwing (Error [])),
             snd (Date_now (snd (randomUUID world1))))"
    by (rule execute_customAgent) (simp add: throwing_def)
  show ?thesis
    unfolding submitTask_found [OF hubCustom_a1 ex]
    by (simp add: Let_def last_task_states_Raised
        world1_eq uuids_world0 clock_world0 counters_world0 Date_now_def randomUUID_def
        string_of_nat.simps digits_def errorMessage_def)
qed

subsection \<open>Built-in agents\<close>

text \<open>
  C8. For each of the four built-in variants and every input, \<^verbatim>\<open>execute(input)\<close>
  returns the variant's label, a line break and the input; the agent's history grows by
  exactly two messages, first a \<open>User\<close> message whose content is the input, then an
  \<open>Assistant\<close> message whose content is the returned string; two clock readings are
  consumed for their timestamps. When the first agent named \<open>The Architect\<close> in the hub
  is the Architect variant (as in a newly constructed hub), \<^verbatim>\<open>askArchitect(q)\<close> returns
  the Architect's labelled echo of \<open>q\<close>.
\<close>

theorem builtin_execute_echo:
  "((variant a, label) \<in> {(ArchitectAgent, ''[Architect Analysis]''),
                            (DevilsAdvocateAgent, ''[Chaos Analysis]''),
                            (HistorianAgent, ''[Historical Context]''),
                            (ScribeAgent, ''[Documentation]'')} \<longrightarrow>
      execute inp a w =
        (Returned (label @ newline @ inp),
         a\<lparr>history := history a @
             [\<lparr>role = User, content = inp, timestamp = clock w (ticks w)\<rparr>,
              \<lparr>role = Assistant, content = label @ newline @ inp,
               timestamp = clock w (Suc (ticks w))\<rparr>]\<rparr>,
         w\<lparr>ticks := Suc (Suc (ticks w))\<rparr>)) \<and>
   (getAgentByName ''The Architect'' h = Some b \<and> variant b = ArchitectAgent \<longrightarrow>
      fst (askArchitect q h w) = Inr (''[Architect Analysis]'' @ newline @ q))"
proof (intro conjI impI)
  assume "(variant a, label) \<in> {(ArchitectAgent, ''[Architect Analysis]''),
                            (DevilsAdvocateAgent, ''[Chaos Analysis]''),
                            (HistorianAgent, ''[Historical Context]''),
                            (ScribeAgent, ''[Documentation]'')}"
  then show "execute inp a w =
        (Returned (label @ newline @ inp),
         a\<lparr>history := history a @
             [\<lparr>role = User, content = inp, timestamp = clock w (ticks w)\<rparr>,
              \<lparr>role = Assistant, content = label @ newline @ inp,
               timestamp = clock w (Suc (ticks w))\<rparr>]\<rparr>,
         w\<lparr>ticks := Suc (Suc (ticks w))\<rparr>)"
    by (auto simp: execute_def echo_eq)
next
  assume b: "getAgentByName ''The Architect'' h = Some b \<and> variant b = ArchitectAgent"
  then have "fst (execute q b w) = Returned (''[Architect Analysis]'' @ newline @ q)"
    by (simp add: execute_def echo_eq)
  with b show "fst (askArchitect q h w) = Inr (''[Architect Analysis]'' @ newline @ q)"
    unfolding askArchitect_def by (blast intro: dispatch_Returned)
qed

theorem builtin_execute_echo_witness:
  "(variant architect0, ''[Architect Analysis]'') \<in>
      {(ArchitectAgent, ''[Architect Analysis]''),
       (DevilsAdvocateAgent, ''[Chaos Analysis]''),
       (HistorianAgent, ''[Historical Context]''),
       (ScribeAgent, ''[Documentation]'')} \<and>
   execute ''why?'' architect0 world1 =
     (Returned (''[Architect Analysis]'' @ newline @ ''why?''),
      architect0\<lparr>history := history architect0 @
          [\<lparr>role = User, content = ''why?'', timestamp = clock world1 (ticks world1)\<rparr>,
           \<lparr>role = Assistant, content = ''[Architect Analysis]'' @ newline @ ''why?'',
            timestamp = clock world1 (Suc (ticks world1))\<rparr>]\<rparr>,
      world1\<lparr>ticks := Suc (Suc (ticks world1))\<rparr>) \<and>
   getAgentByName ''The Architect'' hub0 = Some architect0 \<and>
   variant architect0 = ArchitectAgent \<and>
   fst (askArchitect ''why?'' hub0 world1) = Inr (''[Architect Analysis]'' @ newline @ ''why?'')"
  using builtin_execute_echo [of architect0 "''[Architect Analysis]''" "''why?''" world1
      hub0 architect0 "''why?''"]
    variant_architect0 hub0_getAgentByName
  by simp

subsection \<open>Calls in flight\<close>

lemma submitTask_as_steps:
  "submitTask agentId inp h w =
     (case submitTask_begin agentId inp h w of
        (Inl e, h', w') \<Rightarrow> (Inl e, h', w')
      | (Inr (running, r), h', w') \<Rightarrow>
          (case submitTask_resume running r h' w' of
             (task, h'', w'') \<Rightarrow> (Inr task, h'', w'')))"
  by (cases "map_of (agents h) agentId")
     (auto simp: submitTask_def submitTask_begin_def submitTask_resume_def task_states_def
       Let_def randomUUID_def Date_now_def split: prod.splits outcome.splits)

lemma submitTask_begin_found:
  assumes "map_of (agents h) agentId = Some agent"
    and "execute inp agent (snd (Date_now (snd (randomUUID w)))) = (r, agent', w')"
  shows "submitTask_begin agentId inp h w =
     (let running = \<lparr>t_id = uuids w (drawn w), t_agentId = agentId, t_input = inp,
                      t_status = Running, t_result = None, t_error = None,
                      t_startTime = Some (clock w (ticks w)), t_endTime = None\<rparr>
      in (Inr (running, r),
          h\<lparr>agents := AList.update agentId agent' (agents h),
            tasks := AList.update (uuids w (drawn w)) running (tasks h)\<rparr>,
          w'))"
  using assms
  by (simp add: submitTask_begin_def randomUUID_def Date_now_def Let_def split: prod.splits)

lemma tasks_hub0: "tasks hub0 = []"
  by (simp add: hub0_def new_defs)

lemma history_architect0: "history architect0 = []"
  by (simp add: architect0_def ArchitectAgent_new_def Agent_new_def randomUUID_def)

lemma firstCall_eq:
  "firstCall =
     (Inr (\<lparr>t_id = ''uuid-4'', t_agentId = ''uuid-0'', t_input = ''x'', t_status = Running,
            t_result = None, t_error = None, t_startTime = Some 1000, t_endTime = None\<rparr>,
           Returned (''[Architect Analysis]'' @ newline @ ''x'')),
      hub0\<lparr>agents := AList.update ''uuid-0'' architect1 (agents hub0),
           tasks := [(''uuid-4'',
             \<lparr>t_id = ''uuid-4'', t_agentId = ''uuid-0'', t_input = ''x'', t_status = Running,
              t_result = None, t_error = None, t_startTime = Some 1000, t_endTime = None\<rparr>)]\<rparr>,
      world0\<lparr>drawn := 5, ticks := 3\<rparr>)"
proof -
  have ex: "execute ''x'' architect0 (snd (Date_now (snd (randomUUID world1)))) =
      (Returned (''[Architect Analysis]'' @ newline @ ''x''), architect1,
       world0\<lparr>drawn := 5, ticks := 3\<rparr>)"
    by (simp add: execute_def variant_architect0 echo_eq history_architect0 architect1_def
        world1_eq Date_now_def randomUUID_def clock_world0 counters_world0 world0_def)
  show ?thesis
    unfolding firstCall_def submitTask_begin_found [OF hub0_architect ex]
    by (simp add: Let_def world1_eq uuids_world0 clock_world0 counters_world0 tasks_hub0
        string_of_nat.simps digits_def)
qed

lemma firstCall_agent: "map_of (agents (fst (snd firstCall))) ''uuid-0'' = Some architect1"
  by (simp add: firstCall_eq update_conv')

text \<open>
  C9, as amended. The hub has no queue. For a registered agent, the first part of
  \<^verbatim>\<open>submitTask\<close> always goes through: it registers a new task with status \<open>Running\<close>
  and no end time, and has already called the agent's \<^verbatim>\<open>execute\<close> (its outcome and the
  agent's new state are those of \<^verbatim>\<open>execute\<close> on the given input). The tasks already in
  the registry play no part: they are left as they are, and with any other task registry
  the same task and outcome result. So a call made while a task of the same agent is still
  running starts running as well. A call that is awaited before the next is made amounts
  to the first part followed by the second.
\<close>

theorem submitTask_not_queued:
  "(getAgent agentId h = Some agent \<longrightarrow>
      (\<exists>running r h' w'.
         submitTask_begin agentId inp h w = (Inr (running, r), h', w') \<and>
         t_agentId running = agentId \<and> t_input running = inp \<and>
         t_status running = Running \<and> t_endTime running = None \<and>
         getTask (t_id running) h' = Some running \<and>
         (\<forall>i. i \<noteq> t_id running \<longrightarrow> getTask i h' = getTask i h) \<and>
         r = fst (execute inp agent (snd (Date_now (snd (randomUUID w))))) \<and>
         getAgent agentId h' =
           Some (fst (snd (execute inp agent (snd (Date_now (snd (randomUUID w))))))) \<and>
         (\<forall>ts. fst (submitTask_begin agentId inp (h\<lparr>tasks := ts\<rparr>) w) = Inr (running, r)))) \<and>
   submitTask agentId inp h w =
     (case submitTask_begin agentId inp h w of
        (Inl e, h', w') \<Rightarrow> (Inl e, h', w')
      | (Inr (running, r), h', w') \<Rightarrow>
          (case submitTask_resume running r h' w' of
             (task, h'', w'') \<Rightarrow> (Inr task, h'', w'')))"
proof (intro conjI impI)
  assume "getAgent agentId h = Some agent"
  then have reg: "map_of (agents h) agentId = Some agent"
    by (simp add: getAgent_def)
  obtain r agent' w' where ex:
    "execute inp agent (snd (Date_now (snd (randomUUID w)))) = (r, agent', w')"
    by (cases "execute inp agent (snd (Date_now (snd (randomUUID w))))") auto
  have reg': "map_of (agents (h\<lparr>tasks := ts\<rparr>)) agentId = Some agent" for ts
    using reg by simp
  show "\<exists>running r h' w'.
         submitTask_begin agentId inp h w = (Inr (running, r), h', w') \<and>
         t_agentId running = agentId \<and> t_input running = inp \<and>
         t_status running = Running \<and> t_endTime running = None \<and>
         getTask (t_id running) h' = Some running \<and>
         (\<forall>i. i \<noteq> t_id running \<longrightarrow> getTask i h' = getTask i h) \<and>
         r = fst (execute inp agent (snd (Date_now (snd (randomUUID w))))) \<and>
         getAgent agentId h' =
           Some (fst (snd (execute inp agent (snd (Date_now (snd (randomUUID w))))))) \<and>
         (\<forall>ts. fst (submitTask_begin agentId inp (h\<lparr>tasks := ts\<rparr>) w) = Inr (running, r))"
    by (simp add: submitTask_begin_found [OF reg ex] submitTask_begin_found [OF reg' ex]
        Let_def getTask_def getAgent_def update_conv' ex)
next
  show "submitTask agentId inp h w =
     (case submitTask_begin agentId inp h w of
        (Inl e, h', w') \<Rightarrow> (Inl e, h', w')
      | (Inr (running, r), h', w') \<Rightarrow>
          (case submitTask_resume running r h' w' of
             (task, h'', w'') \<Rightarrow> (Inr task, h'', w'')))"
    by (rule submitTask_as_steps)
qed

theorem submitTask_not_queued_witness:
  "getAgent ''uuid-0'' (fst (snd firstCall)) = Some architect1 \<and>
   map t_status (getTasksByAgent ''uuid-0'' (fst (snd firstCall))) = [Running] \<and>
   (\<exists>running r h' w'.
      submitTask_begin ''uuid-0'' ''y'' (fst (snd firstCall)) (snd (snd firstCall)) =
        (Inr (running, r), h', w') \<and>
      t_agentId running = ''uuid-0'' \<and> t_input running = ''y'' \<and>
      t_status running = Running \<and> t_endTime running = None \<and>
      getTask (t_id running) h' = Some running \<and>
      (\<forall>i. i \<noteq> t_id running \<longrightarrow> getTask i h' = getTask i (fst (snd firstCall))) \<and>
      r = fst (execute ''y'' architect1
                 (snd (Date_now (snd (randomUUID (snd (snd firstCall))))))) \<and>
      getAgent ''uuid-0'' h' =
        Some (fst (snd (execute ''y'' architect1
                          (snd (Date_now (snd (randomUUID (snd (snd firstCall))))))))) \<and>
      (\<forall>ts. fst (submitTask_begin ''uuid-0'' ''y'' ((fst (snd firstCall))\<lparr>tasks := ts\<rparr>)
                    (snd (snd firstCall))) = Inr (running, r))) \<and>
   submitTask ''uuid-0'' ''y'' (fst (snd firstCall)) (snd (snd firstCall)) =
     (case submitTask_begin ''uuid-0'' ''y'' (fst (snd firstCall)) (snd (snd firstCall)) of
        (Inl e, h', w') \<Rightarrow> (Inl e, h', w')
      | (Inr (running, r), h', w') \<Rightarrow>
          (case submitTask_resume running r h' w' of
             (task, h'', w'') \<Rightarrow> (Inr task, h'', w'')))"
proof -
  have a: "getAgent ''uuid-0'' (fst (snd firstCall)) = Some architect1"
    by (simp add: getAgent_def firstCall_agent)
  have b: "map t_status (getTasksByAgent ''uuid-0'' (fst (snd firstCall))) = [Running]"
    by (simp add: getTasksByAgent_def firstCall_eq)
  note t = submitTask_not_queued [of "''uuid-0''" "fst (snd firstCall)" architect1 "''y''"
      "snd (snd firstCall)"]
  from t a have c: "\<exists>running r h' w'.
      submitTask_begin ''uuid-0'' ''y'' (fst (snd firstCall)) (snd (snd firstCall)) =
        (Inr (running, r), h', w') \<and>
      t_agentId running = ''uuid-0'' \<and> t_input running = ''y'' \<and>
      t_status running = Running \<and> t_endTime running = None \<and>
      getTask (t_id running) h' = Some running \<and>
      (\<forall>i. i \<noteq> t_id running \<longrightarrow> getTask i h' = getTask i (fst (snd firstCall))) \<and>
      r = fst (execute ''y'' architect1
                 (snd (Date_now (snd (randomUUID (snd (snd firstCall))))))) \<and>
      getAgent ''uuid-0'' h' =
        Some (fst (snd (execute ''y'' architect1
                          (snd (Date_now (snd (randomUUID (snd (snd firstCall))))))))) \<and>
      (\<forall>ts. fst (submitTask_begin ''uuid-0'' ''y'' ((fst (snd firstCall))\<lparr>tasks := ts\<rparr>)
                    (snd (snd firstCall))) = Inr (running, r))"
    by (rule mp [OF conjunct1])
  from t have d: "submitTask ''uuid-0'' ''y'' (fst (snd firstCall)) (snd (snd firstCall)) =
     (case submitTask_begin ''uuid-0'' ''y'' (fst (snd firstCall)) (snd (snd firstCall)) of
        (Inl e, h', w') \<Rightarrow> (Inl e, h', w')
      | (Inr (running, r), h', w') \<Rightarrow>
          (case submitTask_resume running r h' w' of
             (task, h'', w'') \<Rightarrow> (Inr task, h'', w'')))"
    by (rule conjunct2)
  show ?thesis
    by (intro conjI a b c d)
qed

text \<open>
  C9 as stated fails: after two calls for the same agent, made without awaiting the first,
  the registry holds two tasks of that agent that are both \<open>Running\<close> and have no end
  time; the second was not held back.
\<close>

theorem submitTask_queue_counterexample:
  "map t_status (getTasksByAgent ''uuid-0'' (fst (snd secondCall))) = [Running, Running] \<and>
   map t_input (getTasksByAgent ''uuid-0'' (fst (snd secondCall))) = [''x'', ''y''] \<and>
   map t_endTime (getTasksByAgent ''uuid-0'' (fst (snd secondCall))) = [None, None]"
proof -
  obtain r a' w' where ex:
    "execute ''y'' architect1 (snd (Date_now (snd (randomUUID (snd (snd firstCall)))))) =
       (r, a', w')"
    by (cases "execute ''y'' architect1
          (snd (Date_now (snd (randomUUID (snd (snd firstCall))))))") auto
  show ?thesis
    unfolding secondCall_def submitTask_begin_found [OF firstCall_agent ex]
    by (simp add: Let_def getTasksByAgent_def firstCall_eq uuids_world0
        string_of_nat.simps digits_def)
qed

section \<open>Properties of sessions\<close>

subsection \<open>The concrete session\<close>

lemma session0_eq:
  "session0 =
     \<lparr>s_id = ''cool-project-0'', s_name = ''demo'', hostId = ''host'',
      participants =
        [(''host'', \<lparr>p_id = ''host'', username = ''Host'', color = ''#FF6B6B'',
                     p_isHost = True, joinedAt = 1000, lastSeen = 1001\<rparr>)],
      syncEngine = \<lparr>se_userId = ''host'', removeCursor_calls = []\<rparr>,
      keyVault = 0, budget = Num 5, isActive = True\<rparr>"
  by (simp add: session0_def config0_def Session_new_def generateSessionId_def Math_random_def
      world0_def Date_now_def addParticipant_def generateColor_def colors_def adjectives_def
      nouns_def string_of_nat.simps digits_def SyncEngine_new_def Let_def)

lemma world2_eq: "world2 = world0\<lparr>ticks := 2, rolled := 3\<rparr>"
  by (simp add: world2_def config0_def Session_new_def generateSessionId_def Math_random_def
      world0_def Date_now_def Let_def split: prod.splits)

lemma manager0_eq:
  "manager0 = \<lparr>sessions = [(''cool-project-0'', session0)], m_keyVault = 0\<rparr>"
  by (simp add: manager0_def createSession_def SessionManager_new_def session0_eq Session_new_def generateSessionId_def Math_random_def
      world0_def Date_now_def addParticipant_def generateColor_def colors_def adjectives_def
      nouns_def string_of_nat.simps digits_def SyncEngine_new_def Let_def )

lemma guest_simps: "p_id (guest i) = i" "color (guest i) = []"
  by (simp_all add: guest_def)

subsection \<open>Adding participants\<close>

lemma addParticipant_fst:
  "fst (addParticipant p s) =
     p\<lparr>color := (if color p \<noteq> [] then color p else generateColor s)\<rparr>"
  by (simp add: addParticipant_def Let_def)

lemma addParticipant_snd:
  "snd (addParticipant p s) =
     s\<lparr>participants := AList.update (p_id p) (fst (addParticipant p s)) (participants s)\<rparr>"
  by (simp add: addParticipant_def Let_def)

lemma addParticipant_lookup:
  "getParticipant i (snd (addParticipant p s)) =
     (if i = p_id p then Some (fst (addParticipant p s)) else getParticipant i s)"
  by (simp add: addParticipant_snd getParticipant_def update_conv')

lemma addParticipant_fresh:
  assumes "p_id p \<notin> fst ` set (participants s)"
  shows "length (participants (snd (addParticipant p s))) = Suc (length (participants s))"
    and "fst ` set (participants (snd (addParticipant p s))) =
           insert (p_id p) (fst ` set (participants s))"
proof -
  let ?al = "AList.update (p_id p) (fst (addParticipant p s)) (participants s)"
  have "map fst ?al = map fst (participants s) @ [p_id p]"
    using assms by (simp add: update_keys)
  then have "length (map fst ?al) = Suc (length (participants s))"
    by simp
  then show "length (participants (snd (addParticipant p s))) = Suc (length (participants s))"
    by (simp add: addParticipant_snd)
  show "fst ` set (participants (snd (addParticipant p s))) =
           insert (p_id p) (fst ` set (participants s))"
    by (simp add: addParticipant_snd dom_update)
qed

lemma addParticipants_other:
  "i \<notin> p_id ` set ps \<Longrightarrow> getParticipant i (addParticipants ps s) = getParticipant i s"
  by (induction ps arbitrary: s) (auto simp: addParticipant_lookup)

lemma addParticipants_nth:
  assumes "distinct (map p_id ps)"
    and "set (map color ps) \<subseteq> {[]}"
    and "set (map p_id ps) \<inter> fst ` set (participants s) = {}"
    and "n < length ps"
  shows "getParticipant (p_id (ps ! n)) (addParticipants ps s) =
           Some ((ps ! n)\<lparr>color := colors ! ((length (participants s) + n) mod length colors)\<rparr>)"
  using assms
proof (induction ps arbitrary: s n)
  case Nil
  then show ?case by simp
next
  case (Cons p ps)
  let ?s = "snd (addParticipant p s)"
  have fresh: "p_id p \<notin> fst ` set (participants s)"
    using Cons.prems(3) by auto
  have col: "color p = []"
    using Cons.prems(2) by simp
  show ?case
  proof (cases n)
    case 0
    have "p_id p \<notin> p_id ` set ps"
      using Cons.prems(1) by simp
    then have "getParticipant (p_id p) (addParticipants ps ?s) = getParticipant (p_id p) ?s"
      by (rule addParticipants_other)
    then show ?thesis
      using 0 col by (simp add: addParticipant_lookup addParticipant_fst generateColor_def)
  next
    case (Suc m)
    have "getParticipant (p_id (ps ! m)) (addParticipants ps ?s) =
            Some ((ps ! m)\<lparr>color := colors ! ((length (participants ?s) + m) mod length colors)\<rparr>)"
    proof (rule Cons.IH)
      show "distinct (map p_id ps)" using Cons.prems(1) by simp
      show "set (map color ps) \<subseteq> {[]}" using Cons.prems(2) by simp
      show "set (map p_id ps) \<inter> fst ` set (participants ?s) = {}"
        using Cons.prems(1,3) by (auto simp: addParticipant_fresh(2) [OF fresh])
      show "m < length ps" using Cons.prems(4) Suc by simp
    qed
    then show ?thesis
      using Suc by (simp add: addParticipant_fresh(1) [OF fresh])
  qed
qed

text \<open>
  C6, as amended. Take a sequence of \<^verbatim>\<open>addParticipant\<close> calls whose records carry an
  empty colour and whose ids are pairwise distinct and not yet in the session. The record
  stored for the \<open>n\<close>-th of them (counting from 0) is that record with its colour set to
  the palette entry at index \<open>(k + n) mod 8\<close>, where \<open>k\<close> is the number of participants
  in the session before the sequence: the index is the participant count at the time of
  insertion. The palette has 8 entries. A single \<^verbatim>\<open>addParticipant\<close> writes the colour
  into the record (the palette entry at the current count modulo 8 when the colour is
  empty, the given colour otherwise) and stores the written record under its id.
\<close>

theorem addParticipant_palette:
  "(distinct (map p_id ps) \<and> set (map color ps) \<subseteq> {[]} \<and>
    set (map p_id ps) \<inter> fst ` set (participants s) = {} \<and> n < length ps \<longrightarrow>
      getParticipant (p_id (ps ! n)) (addParticipants ps s) =
        Some ((ps ! n)\<lparr>color := colors ! ((length (participants s) + n) mod 8)\<rparr>)) \<and>
   length colors = 8 \<and>
   fst (addParticipant p s) =
     p\<lparr>color := (if color p = [] then colors ! (length (participants s) mod 8) else color p)\<rparr> \<and>
   getParticipant (p_id p) (snd (addParticipant p s)) = Some (fst (addParticipant p s))"
proof -
  have 8: "length colors = 8" by (simp add: colors_def)
  show ?thesis
    using addParticipants_nth [of ps s n]
    by (auto simp: 8 addParticipant_fst addParticipant_lookup generateColor_def)
qed

theorem addParticipant_palette_witness:
  "distinct (map p_id [guest ''u1'', guest ''u2'']) \<and>
   set (map color [guest ''u1'', guest ''u2'']) \<subseteq> {[]} \<and>
   set (map p_id [guest ''u1'', guest ''u2'']) \<inter> fst ` set (participants session0) = {} \<and>
   (1::nat) < length [guest ''u1'', guest ''u2''] \<and>
   getParticipant ''u2'' (addParticipants [guest ''u1'', guest ''u2''] session0) =
     Some ((guest ''u2'')\<lparr>color := ''#45B7D1''\<rparr>) \<and>
   length colors = 8 \<and>
   fst (addParticipant (guest ''u1'') session0) = (guest ''u1'')\<lparr>color := ''#4ECDC4''\<rparr> \<and>
   getParticipant ''u1'' (snd (addParticipant (guest ''u1'') session0)) =
     Some ((guest ''u1'')\<lparr>color := ''#4ECDC4''\<rparr>)"
  using addParticipant_palette [of "[guest ''u1'', guest ''u2'']" session0 1 "guest ''u1''"]
  by (simp add: guest_simps session0_eq colors_def)

text \<open>
  C6 as stated fails when an id repeats: the second call for \<open>u1\<close> overwrites the first
  and the count does not grow. In a new session (the host is participant 0) the calls for
  \<open>u1\<close>, \<open>u1\<close>, \<open>u2\<close> are calls 1, 2, 3, and \<open>u2\<close> gets palette entry 2, not
  entry 3; \<open>u1\<close> ends with palette entry 2 as well, so two participants share an entry
  however they are numbered. In a session with no participant the same calls are calls
  0, 1, 2, and \<open>u2\<close> gets palette entry 1, not entry 2.
\<close>

theorem addParticipant_palette_counterexample:
  "getParticipant ''u2'' (addParticipants [guest ''u1'', guest ''u1'', guest ''u2''] session0) =
     Some ((guest ''u2'')\<lparr>color := ''#45B7D1''\<rparr>) \<and>
   getParticipant ''u1'' (addParticipants [guest ''u1'', guest ''u1'', guest ''u2''] session0) =
     Some ((guest ''u1'')\<lparr>color := ''#45B7D1''\<rparr>) \<and>
   colors ! (3 mod 8) = ''#96CEB4'' \<and>
   getParticipant ''u2''
     (addParticipants [guest ''u1'', guest ''u1'', guest ''u2'']
        (removeParticipant ''host'' session0)) =
     Some ((guest ''u2'')\<lparr>color := ''#4ECDC4''\<rparr>) \<and>
   colors ! (2 mod 8) = ''#45B7D1''"
  by (simp add: session0_eq guest_def addParticipant_def getParticipant_def generateColor_def
      removeParticipant_def colors_def Let_def)

subsection \<open>Ending a session\<close>

lemma call_isActive: "\<not> isActive s \<Longrightarrow> \<not> isActive (call c s)"
  by (cases c) (simp_all add: addParticipant_snd removeParticipant_def end_session_def)

lemma fold_call_isActive: "\<not> isActive s \<Longrightarrow> \<not> isActive (fold call cs s)"
  by (induction cs arbitrary: s) (simp_all add: call_isActive)

lemma call_fixed:
  "s_id (call c s) = s_id s \<and> s_name (call c s) = s_name s \<and> hostId (call c s) = hostId s \<and>
   budget (call c s) = budget s \<and> keyVault (call c s) = keyVault s"
  by (cases c) (simp_all add: addParticipant_snd removeParticipant_def end_session_def)

text \<open>
  C4, as amended. \<^verbatim>\<open>end()\<close> sets \<open>isActive\<close> to false and empties the participant
  map; it cannot fail, and a second \<^verbatim>\<open>end()\<close> changes nothing. No method sets
  \<open>isActive\<close> back: once false it stays false under every call and every sequence of
  calls. The id, the name, the host id, the budget and the vault reference are never
  changed by any call. After \<^verbatim>\<open>end()\<close>, \<^verbatim>\<open>removeParticipant\<close> leaves the participant
  map empty, but \<^verbatim>\<open>addParticipant\<close> still stores its record (with palette entry 0 when
  the record has no colour): the ended session is not frozen.
\<close>

theorem end_session_terminal:
  "isActive (end_session s) = False \<and> participants (end_session s) = [] \<and>
   end_session (end_session s) = end_session s \<and>
   (\<not> isActive s \<longrightarrow> \<not> isActive (call c s)) \<and>
   \<not> isActive (fold call cs (end_session s)) \<and>
   s_id (call c s) = s_id s \<and> s_name (call c s) = s_name s \<and> hostId (call c s) = hostId s \<and>
   budget (call c s) = budget s \<and> keyVault (call c s) = keyVault s \<and>
   participants (call (RemoveParticipant i) (end_session s)) = [] \<and>
   getParticipant (p_id p) (call (AddParticipant p) (end_session s)) =
     Some (p\<lparr>color := (if color p = [] then colors ! 0 else color p)\<rparr>)"
proof -
  have "\<not> isActive (end_session s)"
    by (simp add: end_session_def)
  then have "\<not> isActive (fold call cs (end_session s))"
    by (rule fold_call_isActive)
  moreover have "getParticipant (p_id p) (call (AddParticipant p) (end_session s)) =
     Some (p\<lparr>color := (if color p = [] then colors ! 0 else color p)\<rparr>)"
    by (simp add: addParticipant_lookup addParticipant_fst generateColor_def end_session_def)
  ultimately show ?thesis
    using call_fixed [of c s] call_isActive [of s c]
    by (simp add: end_session_def removeParticipant_def)
qed

theorem end_session_terminal_witness:
  "\<not> isActive (end_session session0) \<and>
   isActive (end_session (end_session session0)) = False \<and>
   participants (end_session (end_session session0)) = [] \<and>
   end_session (end_session (end_session session0)) = end_session (end_session session0) \<and>
   \<not> isActive (call (AddParticipant (guest ''u1'')) (end_session session0)) \<and>
   \<not> isActive (fold call [AddParticipant (guest ''u1''), RemoveParticipant ''u1'', End]
                  (end_session (end_session session0))) \<and>
   s_id (call (AddParticipant (guest ''u1'')) (end_session session0)) = ''cool-project-0'' \<and>
   getParticipant ''u1'' (call (AddParticipant (guest ''u1'')) (end_session (end_session session0))) =
     Some ((guest ''u1'')\<lparr>color := ''#FF6B6B''\<rparr>)"
  using end_session_terminal [of "end_session session0" "AddParticipant (guest ''u1'')"
      "[AddParticipant (guest ''u1''), RemoveParticipant ''u1'', End]" "''u1''" "guest ''u1''"]
  by (simp add: guest_simps colors_def) (simp add: end_session_def session0_eq)

text \<open>
  C4 as stated fails: \<^verbatim>\<open>addParticipant\<close> on an ended session changes its participant
  map from empty to one entry.
\<close>

theorem end_session_frozen_counterexample:
  "isActive (end_session session0) = False \<and>
   participants (end_session session0) = [] \<and>
   participants (snd (addParticipant (guest ''u1'') (end_session session0))) =
     [(''u1'', (guest ''u1'')\<lparr>color := ''#FF6B6B''\<rparr>)]"
  by (simp add: session0_eq end_session_def addParticipant_def generateColor_def guest_def
      colors_def Let_def)

subsection \<open>Removing a participant\<close>

text \<open>
  C5, as amended. After \<^verbatim>\<open>removeParticipant(id)\<close>, \<^verbatim>\<open>getParticipant(id)\<close> finds
  nothing and every other id is found as before. The sync engine has received exactly one
  more \<^verbatim>\<open>removeCursor\<close> call, for that id, whether or not the id was present. When the
  id was absent, nothing else in the session changes: the session afterwards is the
  session before with that one call forwarded to its sync engine. Removing the same id
  again leaves the participant map as the first removal left it.
\<close>

theorem removeParticipant_effect:
  "getParticipant i (removeParticipant i s) = None \<and>
   (j \<noteq> i \<longrightarrow> getParticipant j (removeParticipant i s) = getParticipant j s) \<and>
   removeCursor_calls (syncEngine (removeParticipant i s)) =
     removeCursor_calls (syncEngine s) @ [i] \<and>
   (getParticipant i s = None \<longrightarrow>
      removeParticipant i s = s\<lparr>syncEngine := removeCursor i (syncEngine s)\<rparr>) \<and>
   participants (removeParticipant i (removeParticipant i s)) =
     participants (removeParticipant i s)"
  by (auto simp: removeParticipant_def getParticipant_def removeCursor_def delete_conv'
      map_of_eq_None_iff delete_idem)

theorem removeParticipant_effect_witness:
  "''u1'' \<noteq> ''host'' \<and> getParticipant ''u1'' session0 = None \<and>
   getParticipant ''u1'' (removeParticipant ''u1'' session0) = None \<and>
   getParticipant ''host'' (removeParticipant ''u1'' session0) = getParticipant ''host'' session0 \<and>
   removeCursor_calls (syncEngine (removeParticipant ''u1'' session0)) =
     removeCursor_calls (syncEngine session0) @ [''u1''] \<and>
   removeParticipant ''u1'' session0 =
     session0\<lparr>syncEngine := removeCursor ''u1'' (syncEngine session0)\<rparr> \<and>
   participants (removeParticipant ''u1'' (removeParticipant ''u1'' session0)) =
     participants (removeParticipant ''u1'' session0)"
proof -
  have n: "getParticipant ''u1'' session0 = None"
    by (simp add: session0_eq getParticipant_def)
  have d: "''u1'' \<noteq> ''host''"
    by simp
  from removeParticipant_effect [of "''u1''" session0 "''host''"] n d
  show ?thesis by blast
qed

text \<open>
  C5 as stated fails in its last part: removing an id that is not in the session is not
  without effect, since the sync engine is still told to remove that id's cursor.
\<close>

theorem removeParticipant_absent_counterexample:
  "getParticipant ''ghost'' session0 = None \<and>
   removeCursor_calls (syncEngine session0) = [] \<and>
   removeCursor_calls (syncEngine (removeParticipant ''ghost'' session0)) = [''ghost'']"
  by (simp add: session0_eq getParticipant_def removeParticipant_def removeCursor_def)

subsection \<open>Joining a session\<close>

text \<open>
  C7. When the manager has no session under \<^verbatim>\<open>sessionId\<close>, \<^verbatim>\<open>joinSession\<close> throws
  the not-found error and the manager (with all its sessions) and the platform are as
  before. When it has one, \<^verbatim>\<open>joinSession\<close> returns that session after
  \<^verbatim>\<open>addParticipant\<close> of the record built from the stub: the stub's id, username and
  colour, \<open>isHost\<close> false, and the next two clock readings as \<open>joinedAt\<close> and
  \<open>lastSeen\<close>. The registry holds the returned session under \<^verbatim>\<open>sessionId\<close>, every
  other entry is unchanged, and looking the stub's id up in the returned session gives
  that record, its colour being the stub's colour or, if that is empty, the palette entry
  for the session's participant count.
\<close>

theorem joinSession_effect:
  "(getSession sessionId m = None \<longrightarrow>
      joinSession sessionId stub m w =
        (Inl (Error (''Session '' @ sessionId @ '' not found'')), m, w)) \<and>
   (getSession sessionId m = Some session \<longrightarrow>
      (\<exists>p session' m'.
         joinSession sessionId stub m w = (Inr session', m', w\<lparr>ticks := Suc (Suc (ticks w))\<rparr>) \<and>
         session' = snd (addParticipant
            \<lparr>p_id = stub_id stub, username = stub_username stub, color = stub_color stub,
             p_isHost = False, joinedAt = clock w (ticks w),
             lastSeen = clock w (Suc (ticks w))\<rparr> session) \<and>
         getSession sessionId m' = Some session' \<and>
         (\<forall>other. other \<noteq> sessionId \<longrightarrow> getSession other m' = getSession other m) \<and>
         getParticipant (stub_id stub) session' = Some p \<and>
         p = \<lparr>p_id = stub_id stub, username = stub_username stub,
              color = (if stub_color stub = [] then generateColor session else stub_color stub),
              p_isHost = False, joinedAt = clock w (ticks w),
              lastSeen = clock w (Suc (ticks w))\<rparr>))"
  by (simp add: joinSession_def getSession_def Date_now_def Let_def update_conv'
      addParticipant_lookup addParticipant_fst)

theorem joinSession_effect_witness:
  "getSession ''unknown-id'' manager0 = None \<and>
   joinSession ''unknown-id'' \<lparr>stub_id = ''u1'', stub_username = ''Una'', stub_color = []\<rparr>
       manager0 world2 =
     (Inl (Error ''Session unknown-id not found''), manager0, world2) \<and>
   getSession ''cool-project-0'' manager0 = Some session0 \<and>
   (\<exists>p session' m'.
      joinSession ''cool-project-0''
          \<lparr>stub_id = ''u1'', stub_username = ''Una'', stub_color = []\<rparr> manager0 world2 =
        (Inr session', m', world2\<lparr>ticks := Suc (Suc (ticks world2))\<rparr>) \<and>
      getSession ''cool-project-0'' m' = Some session' \<and>
      getParticipant ''u1'' session' = Some p \<and>
      p = \<lparr>p_id = ''u1'', username = ''Una'', color = ''#4ECDC4'', p_isHost = False,
           joinedAt = 1002, lastSeen = 1003\<rparr>)"
proof -
  have a: "getSession ''unknown-id'' manager0 = None"
    and b: "getSession ''cool-project-0'' manager0 = Some session0"
    by (simp_all add: getSession_def manager0_eq)
  have c: "generateColor session0 = ''#4ECDC4''"
    by (simp add: generateColor_def session0_eq colors_def)
  have d: "clock world2 (ticks world2) = 1002" "clock world2 (Suc (ticks world2)) = 1003"
    by (simp_all add: world2_eq clock_world0 counters_world0)
  from joinSession_effect [of "''unknown-id''" manager0
      "\<lparr>stub_id = ''u1'', stub_username = ''Una'', stub_color = []\<rparr>" world2 undefined]
  have 1: "joinSession ''unknown-id'' \<lparr>stub_id = ''u1'', stub_username = ''Una'', stub_color = []\<rparr>
       manager0 world2 = (Inl (Error ''Session unknown-id not found''), manager0, world2)"
    using a by simp
  from joinSession_effect [of "''cool-project-0''" manager0
      "\<lparr>stub_id = ''u1'', stub_username = ''Una'', stub_color = []\<rparr>" world2 session0] b
  have 2: "\<exists>p session' m'.
      joinSession ''cool-project-0''
          \<lparr>stub_id = ''u1'', stub_username = ''Una'', stub_color = []\<rparr> manager0 world2 =
        (Inr session', m', world2\<lparr>ticks := Suc (Suc (ticks world2))\<rparr>) \<and>
      getSession ''cool-project-0'' m' = Some session' \<and>
      getParticipant ''u1'' session' = Some p \<and>
      p = \<lparr>p_id = ''u1'', username = ''Una'', color = ''#4ECDC4'', p_isHost = False,
           joinedAt = 1002, lastSeen = 1003\<rparr>"
    by (simp add: c d) blast
  show ?thesis
    using a b 1 2 by blast
qed

subsection \<open>The budget field\<close>

lemma createSession_keyVault: "keyVault (fst (createSession config m w)) = m_keyVault m"
  by (simp add: createSession_def Session_new_def addParticipant_snd Let_def split: prod.splits)

lemma createSession_budget:
  "budget (fst (createSession config m w)) =
     (case c_budget config of None \<Rightarrow> Num 5 | Some x \<Rightarrow> if truthy x then x else Num 5)"
  by (simp add: createSession_def Session_new_def addParticipant_snd Let_def split: prod.splits)

text \<open>
  C10. \<^verbatim>\<open>getBudgetRemaining\<close> and \<^verbatim>\<open>recordAiUsage\<close> depend on the session only through
  its vault reference. Two sessions that refer to the same vault give the same remaining
  budget, and the same answer and the same store after a spend, for every vault
  implementation and every store. Changing a session's budget field changes neither. A
  session made by \<^verbatim>\<open>createSession\<close> refers to the manager's vault and stores the
  configured budget, or 5 when the budget is absent or falsy; so sessions created by
  managers over one vault, from any configurations on any platforms, give the same results
  whatever their budgets.
\<close>

theorem budget_field_unused:
  "(keyVault sa = keyVault sb \<longrightarrow>
      getBudgetRemaining kv sa vs = getBudgetRemaining kv sb vs \<and>
      recordAiUsage kv cost sa vs = recordAiUsage kv cost sb vs) \<and>
   getBudgetRemaining kv (s\<lparr>budget := b\<rparr>) vs = getBudgetRemaining kv s vs \<and>
   recordAiUsage kv cost (s\<lparr>budget := b\<rparr>) vs = recordAiUsage kv cost s vs \<and>
   keyVault (fst (createSession config m w)) = m_keyVault m \<and>
   budget (fst (createSession config m w)) =
     (case c_budget config of None \<Rightarrow> Num 5 | Some x \<Rightarrow> if truthy x then x else Num 5) \<and>
   (m_keyVault ma = m_keyVault mb \<longrightarrow>
      getBudgetRemaining kv (fst (createSession ca ma wa)) vs =
        getBudgetRemaining kv (fst (createSession cb mb wb)) vs \<and>
      recordAiUsage kv cost (fst (createSession ca ma wa)) vs =
        recordAiUsage kv cost (fst (createSession cb mb wb)) vs)"
  by (simp add: createSession_keyVault createSession_budget getBudgetRemaining_def
      recordAiUsage_def)

theorem budget_field_unused_witness:
  "keyVault session0 = keyVault (session0\<lparr>budget := Num 20\<rparr>) \<and>
   getBudgetRemaining exampleVault session0 vaults0 = Num 5 \<and>
   getBudgetRemaining exampleVault (session0\<lparr>budget := Num 20\<rparr>) vaults0 = Num 5 \<and>
   fst (recordAiUsage exampleVault (Num 2) session0 vaults0) = True \<and>
   recordAiUsage exampleVault (Num 2) session0 vaults0 =
     recordAiUsage exampleVault (Num 2) (session0\<lparr>budget := Num 20\<rparr>) vaults0 \<and>
   m_keyVault manager0 = m_keyVault (SessionManager_new 0) \<and>
   budget (fst (createSession (configWith None) manager0 world2)) = Num 5 \<and>
   budget (fst (createSession (configWith (Some (Num 20))) (SessionManager_new 0) world0)) =
     Num 20 \<and>
   getBudgetRemaining exampleVault (fst (createSession (configWith None) manager0 world2)) vaults0 =
     getBudgetRemaining exampleVault
       (fst (createSession (configWith (Some (Num 20))) (SessionManager_new 0) world0)) vaults0 \<and>
   recordAiUsage exampleVault (Num 2) (fst (createSession (configWith None) manager0 world2)) vaults0 =
     recordAiUsage exampleVault (Num 2)
       (fst (createSession (configWith (Some (Num 20))) (SessionManager_new 0) world0)) vaults0"
proof -
  have k: "keyVault session0 = keyVault (session0\<lparr>budget := Num 20\<rparr>)"
    by simp
  have m: "m_keyVault manager0 = m_keyVault (SessionManager_new 0)"
    by (simp add: manager0_eq SessionManager_new_def)
  have g: "getBudgetRemaining exampleVault session0 vaults0 = Num 5"
    by (simp add: getBudgetRemaining_def exampleVault_def vaults0_def)
  have r: "fst (recordAiUsage exampleVault (Num 2) session0 vaults0) = True"
    by (simp add: recordAiUsage_def exampleVault_def vaults0_def)
  have b: "budget (fst (createSession (configWith None) manager0 world2)) = Num 5"
    "budget (fst (createSession (configWith (Some (Num 20))) (SessionManager_new 0) world0)) =
       Num 20"
    by (simp_all add: createSession_budget configWith_def)
  note t = budget_field_unused [where sa = session0 and sb = "session0\<lparr>budget := Num 20\<rparr>"
      and kv = exampleVault and vs = vaults0 and cost = "Num 2" and s = session0 and b = "Num 20"
      and ma = manager0 and mb = "SessionManager_new 0"
      and ca = "configWith None" and wa = world2
      and cb = "configWith (Some (Num 20))" and wb = world0]
  show ?thesis
    using k m g r b t by metis
qed

end
